theory Spec2Isabelle
  imports Complex_Main
begin

section \<open>The expression evaluator of calculator-mcp\<close>

text \<open>
  This theory embeds \<^verbatim>\<open>unary_operation\<close>, \<^verbatim>\<open>binary_operation\<close> and
  \<^verbatim>\<open>evaluate_expression\<close> of \<^verbatim>\<open>src/calculator_mcp/advanced_math.py\<close>.

  Conventions of the embedding:
  \<^item> A Python \<^verbatim>\<open>str\<close> is a \<open>string\<close>; a \<open>char\<close> stands for the code point of the
    same number, so the inputs covered are the strings over the code points 0 to 255.
    Positions count characters, as Python's indices do.
  \<^item> A Python \<^verbatim>\<open>int\<close> is an \<open>int\<close>. A Python \<^verbatim>\<open>float\<close> is idealised as a
    \<open>real\<close> and a \<^verbatim>\<open>complex\<close> as a \<open>complex\<close>: rounding, infinities, NaN and
    \<^verbatim>\<open>OverflowError\<close> are outside the model, and so is the interpreter's recursion limit.
  \<^item> An exception is a value of type \<open>exn\<close>; a function that can raise returns
    \<open>exn + 'a\<close>, with \<open>Inl\<close> for the exception.
\<close>

subsection \<open>Exceptions\<close>

text \<open>
  Every \<^verbatim>\<open>raise\<close> of the source raises \<^verbatim>\<open>ValueError\<close> with a message; \<open>msg\<close> has one
  constructor for each message, carrying what the message interpolates.
  \<open>Math_domain_error\<close> is the \<^verbatim>\<open>ValueError\<close> of Python's \<^verbatim>\<open>math\<close> module.
  \<open>other\<close> lists the exceptions that are not \<^verbatim>\<open>ValueError\<close> and that the operators
  of the model can raise.
\<close>

datatype other = ZeroDivisionError | TypeError

datatype msg =
    Invalid_operand string
  | Sqrt_of_negative
  | Invalid_operation
  | Cannot_divide_by_zero
  | Log_base_invalid
  | Log_of_non_positive
  | Math_domain_error
  | Empty_expression
  | Missing_closing_parenthesis_sqrt
  | Sqrt_requires_parentheses
  | Missing_closing_parenthesis_log
  | Log_requires_comma
  | Log_requires_parentheses
  | Missing_closing_parenthesis
  | Expected_number nat
  | Invalid_number_format string
  | Unexpected_character nat char
  | Error_evaluating other

datatype exn = ValueError msg | Other other

text \<open>
  The error kinds of the specification (its section 7), as names for groups of messages.
  \<open>Uncategorized\<close> is the wrapper \<^verbatim>\<open>"Error evaluating expression: ..."\<close>, for which the
  specification has no kind.
\<close>

datatype error_kind =
    EmptyExpression | MissingParenthesis | MissingArgumentSeparator | MalformedNumber
  | UnexpectedTrailingInput | UnknownOperation | InvalidOperand | DomainError
  | DivisionByZero | Uncategorized

fun kind_of :: "msg \<Rightarrow> error_kind" where
  "kind_of (Invalid_operand s) = InvalidOperand"
| "kind_of Sqrt_of_negative = DomainError"
| "kind_of Invalid_operation = UnknownOperation"
| "kind_of Cannot_divide_by_zero = DivisionByZero"
| "kind_of Log_base_invalid = DomainError"
| "kind_of Log_of_non_positive = DomainError"
| "kind_of Math_domain_error = DomainError"
| "kind_of Empty_expression = EmptyExpression"
| "kind_of Missing_closing_parenthesis_sqrt = MissingParenthesis"
| "kind_of Sqrt_requires_parentheses = MissingParenthesis"
| "kind_of Missing_closing_parenthesis_log = MissingParenthesis"
| "kind_of Log_requires_comma = MissingArgumentSeparator"
| "kind_of Log_requires_parentheses = MissingParenthesis"
| "kind_of Missing_closing_parenthesis = MissingParenthesis"
| "kind_of (Expected_number p) = MalformedNumber"
| "kind_of (Invalid_number_format s) = MalformedNumber"
| "kind_of (Unexpected_character p c) = UnexpectedTrailingInput"
| "kind_of (Error_evaluating x) = Uncategorized"

subsection \<open>Python numbers\<close>

datatype number = PyInt int | PyFloat real | PyComplex complex

text \<open>\<^verbatim>\<open>Operand = Union[int, float, str]\<close>\<close>

datatype operand = Num number | Str string

text \<open>The value of a number that is not complex, as a float.\<close>

fun as_float :: "number \<Rightarrow> real option" where
  "as_float (PyInt i) = Some (of_int i)"
| "as_float (PyFloat x) = Some x"
| "as_float (PyComplex z) = None"

fun as_complex :: "number \<Rightarrow> complex" where
  "as_complex (PyInt i) = of_int i"
| "as_complex (PyFloat x) = of_real x"
| "as_complex (PyComplex z) = z"

text \<open>
  \<^verbatim>\<open>a + b\<close>, \<^verbatim>\<open>a - b\<close> and \<^verbatim>\<open>a * b\<close>: two ints give an int, a complex operand makes
  the result complex, and the result is a float otherwise.
\<close>

fun arith ::
  "(int \<Rightarrow> int \<Rightarrow> int) \<Rightarrow> (real \<Rightarrow> real \<Rightarrow> real) \<Rightarrow> (complex \<Rightarrow> complex \<Rightarrow> complex) \<Rightarrow>
   number \<Rightarrow> number \<Rightarrow> number" where
  "arith fi fr fc (PyInt i) (PyInt j) = PyInt (fi i j)"
| "arith fi fr fc a b =
     (case (as_float a, as_float b) of
        (Some x, Some y) \<Rightarrow> PyFloat (fr x y)
      | _ \<Rightarrow> PyComplex (fc (as_complex a) (as_complex b)))"

definition py_add :: "number \<Rightarrow> number \<Rightarrow> number" where
  "py_add = arith (+) (+) (+)"

definition py_sub :: "number \<Rightarrow> number \<Rightarrow> number" where
  "py_sub = arith (-) (-) (-)"

definition py_mul :: "number \<Rightarrow> number \<Rightarrow> number" where
  "py_mul = arith (*) (*) (*)"

text \<open>\<^verbatim>\<open>a == k\<close> for an int constant \<open>k\<close>: numbers of different types compare by value.\<close>

definition py_eq :: "number \<Rightarrow> int \<Rightarrow> bool" where
  "py_eq a k = (as_complex a = of_int k)"

text \<open>\<^verbatim>\<open>a < 0\<close> and \<^verbatim>\<open>a <= 0\<close>: ordering a complex number raises \<^verbatim>\<open>TypeError\<close>.\<close>

definition py_lt0 :: "number \<Rightarrow> exn + bool" where
  "py_lt0 a = (case as_float a of None \<Rightarrow> Inl (Other TypeError) | Some x \<Rightarrow> Inr (x < 0))"

definition py_le0 :: "number \<Rightarrow> exn + bool" where
  "py_le0 a = (case as_float a of None \<Rightarrow> Inl (Other TypeError) | Some x \<Rightarrow> Inr (x \<le> 0))"

text \<open>\<^verbatim>\<open>a / b\<close>, true division: never an int.\<close>

definition py_truediv :: "number \<Rightarrow> number \<Rightarrow> exn + number" where
  "py_truediv a b =
     (if py_eq b 0 then Inl (Other ZeroDivisionError)
      else case (as_float a, as_float b) of
             (Some x, Some y) \<Rightarrow> Inr (PyFloat (x / y))
           | _ \<Rightarrow> Inr (PyComplex (as_complex a / as_complex b)))"

text \<open>
  The functions of the C library under Python's operators and \<^verbatim>\<open>math\<close> module, and the
  two constants of \<^verbatim>\<open>math\<close>, on the idealised floats.
\<close>

definition c_sqrt :: "real \<Rightarrow> real" where
  "c_sqrt x = sqrt x"

definition c_log :: "real \<Rightarrow> real" where
  "c_log x = ln x"

definition c_pow :: "real \<Rightarrow> real \<Rightarrow> real" where
  "c_pow x y = x powr y"

definition c_polar_pow :: "complex \<Rightarrow> complex \<Rightarrow> complex" where
  "c_polar_pow a b = exp (b * Complex (ln (cmod a)) (Arg a))"

definition math_pi :: real where
  "math_pi = pi"

definition math_e :: real where
  "math_e = exp 1"

text \<open>
  \<^verbatim>\<open>a ** b\<close>. Complex power is the principal value \<open>exp (b * log a)\<close>, which Python
  computes in polar form.
\<close>

definition complex_pow :: "complex \<Rightarrow> complex \<Rightarrow> exn + number" where
  "complex_pow a b =
     (if b = 0 then Inr (PyComplex 1)
      else if a = 0 then
        (if Im b \<noteq> 0 \<or> Re b < 0 then Inl (Other ZeroDivisionError) else Inr (PyComplex 0))
      else Inr (PyComplex (c_polar_pow a b)))"

text \<open>
  Float power: a negative base with an exponent that is not whole is handed to the
  complex power.
\<close>

definition float_pow :: "real \<Rightarrow> real \<Rightarrow> exn + number" where
  "float_pow iv iw =
     (if iw = 0 then Inr (PyFloat 1)
      else if iv = 0 then
        (if iw < 0 then Inl (Other ZeroDivisionError) else Inr (PyFloat 0))
      else if iv < 0 \<and> iw \<noteq> of_int \<lfloor>iw\<rfloor> then complex_pow (of_real iv) (of_real iw)
      else if iv < 0 then Inr (PyFloat (iv powi \<lfloor>iw\<rfloor>))
      else Inr (PyFloat (c_pow iv iw)))"

text \<open>Int power: an int for an exponent that is not negative, the float power otherwise.\<close>

fun py_pow :: "number \<Rightarrow> number \<Rightarrow> exn + number" where
  "py_pow (PyInt i) (PyInt j) =
     (if 0 \<le> j then Inr (PyInt (i ^ nat j)) else float_pow (of_int i) (of_int j))"
| "py_pow a b =
     (case (as_float a, as_float b) of
        (Some x, Some y) \<Rightarrow> float_pow x y
      | _ \<Rightarrow> complex_pow (as_complex a) (as_complex b))"

text \<open>\<^verbatim>\<open>math.sqrt(a)\<close> and \<^verbatim>\<open>math.log(x, base)\<close>, which is \<^verbatim>\<open>log(x) / log(base)\<close>.\<close>

definition math_sqrt :: "number \<Rightarrow> exn + number" where
  "math_sqrt a =
     (case as_float a of
        None \<Rightarrow> Inl (Other TypeError)
      | Some x \<Rightarrow> if x < 0 then Inl (ValueError Math_domain_error) else Inr (PyFloat (c_sqrt x)))"

definition math_log :: "number \<Rightarrow> number \<Rightarrow> exn + number" where
  "math_log x base =
     (case (as_float x, as_float base) of
        (Some v, Some b) \<Rightarrow>
          if v \<le> 0 \<or> b \<le> 0 then Inl (ValueError Math_domain_error)
          else if b = 1 then Inl (Other ZeroDivisionError)
          else Inr (PyFloat (c_log v / c_log b))
      | _ \<Rightarrow> Inl (Other TypeError))"

subsection \<open>The operation dispatcher\<close>

text \<open>
  The first lines of both dispatchers: a string operand is \<^verbatim>\<open>'pi'\<close> or \<^verbatim>\<open>'e'\<close>, or
  it is refused.
\<close>

definition resolve :: "operand \<Rightarrow> exn + number" where
  "resolve a =
     (case a of
        Num x \<Rightarrow> Inr x
      | Str s \<Rightarrow>
          if s = ''pi'' then Inr (PyFloat math_pi)
          else if s = ''e'' then Inr (PyFloat math_e)
          else Inl (ValueError (Invalid_operand s)))"

definition unary_operation :: "operand \<Rightarrow> string \<Rightarrow> exn + number" where
  "unary_operation a operation =
     (case resolve a of
        Inl err \<Rightarrow> Inl err
      | Inr a \<Rightarrow>
          if operation = ''sqrt'' then
            (case py_lt0 a of
               Inl err \<Rightarrow> Inl err
             | Inr neg \<Rightarrow> if neg then Inl (ValueError Sqrt_of_negative) else math_sqrt a)
          else Inl (ValueError Invalid_operation))"

definition binary_operation :: "operand \<Rightarrow> operand \<Rightarrow> string \<Rightarrow> exn + number" where
  "binary_operation a b operation =
     (case resolve a of
        Inl err \<Rightarrow> Inl err
      | Inr a \<Rightarrow>
     (case resolve b of
        Inl err \<Rightarrow> Inl err
      | Inr b \<Rightarrow>
          if operation = ''+'' then Inr (py_add a b)
          else if operation = ''-'' then Inr (py_sub a b)
          else if operation = ''*'' then Inr (py_mul a b)
          else if operation = ''/'' then
            (if py_eq b 0 then Inl (ValueError Cannot_divide_by_zero) else py_truediv a b)
          else if operation = ''**'' then py_pow a b
          else if operation = ''log'' then
            (case py_le0 a of
               Inl err \<Rightarrow> Inl err
             | Inr a_le0 \<Rightarrow>
                 if a_le0 \<or> py_eq a 1 then Inl (ValueError Log_base_invalid)
                 else
                   (case py_le0 b of
                      Inl err \<Rightarrow> Inl err
                    | Inr b_le0 \<Rightarrow>
                        if b_le0 then Inl (ValueError Log_of_non_positive)
                        else math_log b a))
          else Inl (ValueError Invalid_operation)))"

subsection \<open>Numeric literals\<close>

text \<open>
  \<^verbatim>\<open>str.isdigit\<close> on the code points below 256: the ASCII digits and the superscript
  digits \<^verbatim>\<open>U+00B2\<close>, \<^verbatim>\<open>U+00B3\<close> and \<^verbatim>\<open>U+00B9\<close>.
\<close>

definition ascii_digit :: "char \<Rightarrow> bool" where
  "ascii_digit c = (48 \<le> (of_char c :: nat) \<and> (of_char c :: nat) \<le> 57)"

definition isdigit :: "char \<Rightarrow> bool" where
  "isdigit c = (ascii_digit c \<or> (of_char c :: nat) \<in> {178, 179, 185})"

definition digits_value :: "string \<Rightarrow> nat" where
  "digits_value ds = foldl (\<lambda>acc c. 10 * acc + ((of_char c :: nat) - 48)) 0 ds"

text \<open>
  \<^verbatim>\<open>float(s)\<close> for the strings the scanner below hands to it: an optional \<^verbatim>\<open>-\<close>,
  then characters that are \<^verbatim>\<open>.\<close> or satisfy \<^verbatim>\<open>isdigit\<close>. Python accepts such a string
  when it has one or more ASCII digits, at most one point and nothing else; \<open>None\<close>
  stands for the \<^verbatim>\<open>ValueError\<close> of \<^verbatim>\<open>float\<close>.
\<close>

definition float_of_str :: "string \<Rightarrow> real option" where
  "float_of_str s =
     (let negative = (s \<noteq> [] \<and> hd s = CHR ''-'');
          body = (if negative then tl s else s);
          whole = takeWhile (\<lambda>c. c \<noteq> CHR ''.'') body;
          rest = dropWhile (\<lambda>c. c \<noteq> CHR ''.'') body;
          frac = (if rest = [] then [] else tl rest);
          magnitude = of_nat (digits_value whole) + of_nat (digits_value frac) / 10 ^ length frac
      in if list_all ascii_digit (whole @ frac) \<and> whole @ frac \<noteq> []
         then Some (if negative then - magnitude else magnitude)
         else None)"

text \<open>\<^verbatim>\<open>num.is_integer()\<close> and \<^verbatim>\<open>int(num)\<close> on a float.\<close>

definition is_integer :: "real \<Rightarrow> bool" where
  "is_integer x = (of_int \<lfloor>x\<rfloor> = x)"

definition int_of_float :: "real \<Rightarrow> int" where
  "int_of_float x = (if 0 \<le> x then \<lfloor>x\<rfloor> else \<lceil>x\<rceil>)"

text \<open>
  The loop \<^verbatim>\<open>while pos < len(expr) and (expr[pos].isdigit() or expr[pos] == '.')\<close> of
  \<^verbatim>\<open>parse_factor\<close>.
\<close>

function scan_digits :: "string \<Rightarrow> nat \<Rightarrow> nat" where
  "scan_digits expr pos =
     (if pos < length expr \<and> (isdigit (expr ! pos) \<or> expr ! pos = CHR ''.'')
      then scan_digits expr (pos + 1) else pos)"
  by pat_completeness auto
termination
  by (relation "measure (\<lambda>(expr, pos). length expr - pos)") auto

declare scan_digits.simps [simp del]

text \<open>\<^verbatim>\<open>expr[i:j]\<close> for \<open>0 \<le> i\<close> and \<open>0 \<le> j\<close>.\<close>

definition slice :: "string \<Rightarrow> nat \<Rightarrow> nat \<Rightarrow> string" where
  "slice expr i j = take (j - i) (drop i expr)"

subsection \<open>The recursive-descent evaluator\<close>

text \<open>
  A parsing function returns the value and the next position, or the exception raised.
  The outer \<open>option\<close> is for the fuel of the recursion below: \<open>None\<close> says that it
  ran out. \<open>then_do\<close> is the sequencing of Python statements: an exception of the
  first one ends the function.
\<close>

type_synonym 'a result = "(exn + 'a) option"

type_synonym parsed = "(number \<times> nat) result"

definition returns :: "'a \<Rightarrow> 'a result" where
  "returns x = Some (Inr x)"

definition raises :: "exn \<Rightarrow> 'a result" where
  "raises err = Some (Inl err)"

definition then_do :: "'a result \<Rightarrow> ('a \<Rightarrow> 'b result) \<Rightarrow> 'b result" where
  "then_do m f =
     (case m of None \<Rightarrow> None | Some (Inl err) \<Rightarrow> Some (Inl err) | Some (Inr x) \<Rightarrow> f x)"

text \<open>
  The bodies of the three nested functions of \<^verbatim>\<open>evaluate_expression\<close> and of their two
  \<^verbatim>\<open>while\<close> loops. The functions that a body calls are its first arguments, under the
  names they have in the source.
\<close>

definition parse_expression_body ::
  "(string \<Rightarrow> nat \<Rightarrow> parsed) \<Rightarrow> (string \<Rightarrow> number \<Rightarrow> nat \<Rightarrow> parsed) \<Rightarrow> string \<Rightarrow> nat \<Rightarrow> parsed" where
  "parse_expression_body parse_term parse_expression_loop expr pos =
     then_do (parse_term expr pos) (\<lambda>(result, pos).
     parse_expression_loop expr result pos)"

definition parse_expression_loop_body ::
  "(string \<Rightarrow> nat \<Rightarrow> parsed) \<Rightarrow> (string \<Rightarrow> number \<Rightarrow> nat \<Rightarrow> parsed) \<Rightarrow>
   string \<Rightarrow> number \<Rightarrow> nat \<Rightarrow> parsed" where
  "parse_expression_loop_body parse_term parse_expression_loop expr result pos =
     (if pos < length expr \<and> (expr ! pos = CHR ''+'' \<or> expr ! pos = CHR ''-'') then
        then_do (parse_term expr (pos + 1)) (\<lambda>(right, pos').
        then_do (Some (binary_operation (Num result) (Num right) [expr ! pos])) (\<lambda>result.
        parse_expression_loop expr result pos'))
      else returns (result, pos))"

definition parse_term_body ::
  "(string \<Rightarrow> nat \<Rightarrow> parsed) \<Rightarrow> (string \<Rightarrow> number \<Rightarrow> nat \<Rightarrow> parsed) \<Rightarrow> string \<Rightarrow> nat \<Rightarrow> parsed" where
  "parse_term_body parse_factor parse_term_loop expr pos =
     then_do (parse_factor expr pos) (\<lambda>(result, pos).
     parse_term_loop expr result pos)"

definition parse_term_loop_body ::
  "(string \<Rightarrow> nat \<Rightarrow> parsed) \<Rightarrow> (string \<Rightarrow> number \<Rightarrow> nat \<Rightarrow> parsed) \<Rightarrow>
   string \<Rightarrow> number \<Rightarrow> nat \<Rightarrow> parsed" where
  "parse_term_loop_body parse_factor parse_term_loop expr result pos =
     (if pos < length expr \<and> (expr ! pos = CHR ''*'' \<or> expr ! pos = CHR ''/'') then
        then_do (parse_factor expr (pos + 1)) (\<lambda>(right, pos').
        then_do (Some (binary_operation (Num result) (Num right) [expr ! pos])) (\<lambda>result.
        parse_term_loop expr result pos'))
      else returns (result, pos))"

text \<open>The tail of \<^verbatim>\<open>parse_factor\<close> from \<^verbatim>\<open># Parse a number\<close> on.\<close>

definition parse_number ::
  "(string \<Rightarrow> nat \<Rightarrow> parsed) \<Rightarrow> string \<Rightarrow> nat \<Rightarrow> parsed" where
  "parse_number parse_factor expr pos =
     (let start = pos;
          pos = (if pos < length expr \<and> expr ! pos = CHR ''-'' then pos + 1 else pos);
          pos = scan_digits expr pos
      in if start = pos then raises (ValueError (Expected_number pos))
         else
           (case float_of_str (slice expr start pos) of
              None \<Rightarrow> raises (ValueError (Invalid_number_format (slice expr start pos)))
            | Some num \<Rightarrow>
                (let num = (if is_integer num then PyInt (int_of_float num) else PyFloat num)
                 in if pos + 1 < length expr \<and> slice expr pos (pos + 2) = ''**'' then
                      then_do (parse_factor expr (pos + 2)) (\<lambda>(exponent, pos).
                      then_do (Some (binary_operation (Num num) (Num exponent) ''**'')) (\<lambda>num.
                      returns (num, pos)))
                    else returns (num, pos))))"

definition parse_factor_body ::
  "(string \<Rightarrow> nat \<Rightarrow> parsed) \<Rightarrow> (string \<Rightarrow> nat \<Rightarrow> parsed) \<Rightarrow> string \<Rightarrow> nat \<Rightarrow> parsed" where
  "parse_factor_body parse_expression parse_factor expr pos =
     (if pos < length expr \<and> slice expr pos (pos + 4) = ''sqrt'' then
        (if pos + 4 < length expr \<and> expr ! (pos + 4) = CHR ''('' then
           then_do (parse_expression expr (pos + 4 + 1)) (\<lambda>(arg, pos).
           if pos < length expr \<and> expr ! pos = CHR '')'' then
             then_do (Some (unary_operation (Num arg) ''sqrt'')) (\<lambda>v.
             returns (v, pos + 1))
           else raises (ValueError Missing_closing_parenthesis_sqrt))
         else raises (ValueError Sqrt_requires_parentheses))
      else if pos < length expr \<and> slice expr pos (pos + 3) = ''log'' then
        (if pos + 3 < length expr \<and> expr ! (pos + 3) = CHR ''('' then
           then_do (parse_expression expr (pos + 3 + 1)) (\<lambda>(base, pos).
           if pos < length expr \<and> expr ! pos = CHR '','' then
             then_do (parse_expression expr (pos + 1)) (\<lambda>(val, pos).
             if pos < length expr \<and> expr ! pos = CHR '')'' then
               then_do (Some (binary_operation (Num val) (Num base) ''log'')) (\<lambda>v.
               returns (v, pos + 1))
             else raises (ValueError Missing_closing_parenthesis_log))
           else raises (ValueError Log_requires_comma))
         else raises (ValueError Log_requires_parentheses))
      else if pos < length expr \<and> expr ! pos = CHR ''('' then
        then_do (parse_expression expr (pos + 1)) (\<lambda>(result, pos).
        if pos < length expr \<and> expr ! pos = CHR '')'' then
          (if pos + 1 + 1 < length expr \<and> slice expr (pos + 1) (pos + 1 + 2) = ''**'' then
             then_do (parse_factor expr (pos + 1 + 2)) (\<lambda>(exponent, pos).
             then_do (Some (binary_operation (Num result) (Num exponent) ''**'')) (\<lambda>result.
             returns (result, pos)))
           else returns (result, pos + 1))
        else raises (ValueError Missing_closing_parenthesis))
      else parse_number parse_factor expr pos)"

text \<open>
  The recursion of the five bodies through one another, on fuel: every call takes one
  unit. \<open>production\<close> names the function called and carries its arguments other than
  \<^verbatim>\<open>expr\<close>.
\<close>

datatype production =
    Expression nat
  | Expression_loop number nat
  | Term nat
  | Term_loop number nat
  | Factor nat

primrec parse :: "nat \<Rightarrow> string \<Rightarrow> production \<Rightarrow> parsed" where
  "parse 0 expr p = None"
| "parse (Suc n) expr p =
     (case p of
        Expression pos \<Rightarrow>
          parse_expression_body
            (\<lambda>expr pos. parse n expr (Term pos))
            (\<lambda>expr result pos. parse n expr (Expression_loop result pos)) expr pos
      | Expression_loop result pos \<Rightarrow>
          parse_expression_loop_body
            (\<lambda>expr pos. parse n expr (Term pos))
            (\<lambda>expr result pos. parse n expr (Expression_loop result pos)) expr result pos
      | Term pos \<Rightarrow>
          parse_term_body
            (\<lambda>expr pos. parse n expr (Factor pos))
            (\<lambda>expr result pos. parse n expr (Term_loop result pos)) expr pos
      | Term_loop result pos \<Rightarrow>
          parse_term_loop_body
            (\<lambda>expr pos. parse n expr (Factor pos))
            (\<lambda>expr result pos. parse n expr (Term_loop result pos)) expr result pos
      | Factor pos \<Rightarrow>
          parse_factor_body
            (\<lambda>expr pos. parse n expr (Expression pos))
            (\<lambda>expr pos. parse n expr (Factor pos)) expr pos)"

definition parse_expression :: "nat \<Rightarrow> string \<Rightarrow> nat \<Rightarrow> parsed" where
  "parse_expression n expr pos = parse n expr (Expression pos)"

definition parse_expression_loop :: "nat \<Rightarrow> string \<Rightarrow> number \<Rightarrow> nat \<Rightarrow> parsed" where
  "parse_expression_loop n expr result pos = parse n expr (Expression_loop result pos)"

definition parse_term :: "nat \<Rightarrow> string \<Rightarrow> nat \<Rightarrow> parsed" where
  "parse_term n expr pos = parse n expr (Term pos)"

definition parse_term_loop :: "nat \<Rightarrow> string \<Rightarrow> number \<Rightarrow> nat \<Rightarrow> parsed" where
  "parse_term_loop n expr result pos = parse n expr (Term_loop result pos)"

definition parse_factor :: "nat \<Rightarrow> string \<Rightarrow> nat \<Rightarrow> parsed" where
  "parse_factor n expr pos = parse n expr (Factor pos)"

text \<open>
  The body of \<^verbatim>\<open>evaluate_expression\<close>, with the fuel for the parse as a parameter.
  \<^verbatim>\<open>expression.replace(" ", "")\<close> removes the space characters. The \<^verbatim>\<open>except\<close> clause
  re-raises a \<^verbatim>\<open>ValueError\<close> and wraps every other exception into one.
\<close>

definition evaluate_with :: "nat \<Rightarrow> string \<Rightarrow> number result" where
  "evaluate_with fuel expression =
     (let expression = filter (\<lambda>c. c \<noteq> CHR '' '') expression
      in if expression = [] then raises (ValueError Empty_expression)
         else
           (case parse_expression fuel expression 0 of
              None \<Rightarrow> None
            | Some (Inl (ValueError m)) \<Rightarrow> raises (ValueError m)
            | Some (Inl (Other x)) \<Rightarrow> raises (ValueError (Error_evaluating x))
            | Some (Inr (result, pos)) \<Rightarrow>
                if pos < length expression
                then raises (ValueError (Unexpected_character pos (expression ! pos)))
                else returns result))"

text \<open>
  \<^verbatim>\<open>evaluate_expression\<close> itself: the fuel is five units for each character left after
  the spaces are removed, and five more, which is enough for every input
  (\<open>evaluate_expression_terminates\<close> below).
\<close>

definition evaluate_expression :: "string \<Rightarrow> number result" where
  "evaluate_expression expression =
     evaluate_with (5 * length (filter (\<lambda>c. c \<noteq> CHR '' '') expression) + 5) expression"

subsection \<open>Notions for the proofs\<close>

text \<open>
  \<open>below m m'\<close>: the run \<open>m'\<close> had the fuel that \<open>m\<close> lacked, or is the same.
  \<open>advances pos m\<close>: a parse from \<open>pos\<close> that returns, returns a position not before
  \<open>pos\<close>. \<open>defined m\<close>: the fuel did not run out.
\<close>

definition below :: "'a option \<Rightarrow> 'a option \<Rightarrow> bool" where
  "below m m' \<longleftrightarrow> m = None \<or> m = m'"

definition advances :: "nat \<Rightarrow> parsed \<Rightarrow> bool" where
  "advances pos m \<longleftrightarrow> (\<forall>v q. m = Some (Inr (v, q)) \<longrightarrow> pos \<le> q)"

definition defined :: "'a option \<Rightarrow> bool" where
  "defined m \<longleftrightarrow> m \<noteq> None"

section \<open>Rules for running the evaluator\<close>

lemma then_do_simps [simp]:
  "then_do None f = None"
  "then_do (Some (Inl err)) f = Some (Inl err)"
  "then_do (Some (Inr x)) f = f x"
  by (simp_all add: then_do_def)

text \<open>Run the first statement before looking into what follows it.\<close>

lemma then_do_weak_cong: "m = m' \<Longrightarrow> then_do m f = then_do m' f"
  by simp

text \<open>The five functions call one another's bodies with one unit of fuel less.\<close>

lemma parse_Suc:
  "parse_expression (Suc n) expr pos =
     parse_expression_body (parse_term n) (parse_expression_loop n) expr pos"
  "parse_expression_loop (Suc n) expr result pos =
     parse_expression_loop_body (parse_term n) (parse_expression_loop n) expr result pos"
  "parse_term (Suc n) expr pos =
     parse_term_body (parse_factor n) (parse_term_loop n) expr pos"
  "parse_term_loop (Suc n) expr result pos =
     parse_term_loop_body (parse_factor n) (parse_term_loop n) expr result pos"
  "parse_factor (Suc n) expr pos =
     parse_factor_body (parse_expression n) (parse_factor n) expr pos"
  unfolding parse_expression_def parse_expression_loop_def parse_term_def parse_term_loop_def
    parse_factor_def
  by simp_all

lemma parse_0:
  "parse_expression 0 expr pos = None"
  "parse_expression_loop 0 expr result pos = None"
  "parse_term 0 expr pos = None"
  "parse_term_loop 0 expr result pos = None"
  "parse_factor 0 expr pos = None"
  unfolding parse_expression_def parse_expression_loop_def parse_term_def parse_term_loop_def
    parse_factor_def
  by simp_all

lemma parse_numeral:
  "parse_expression (numeral k) expr pos =
     parse_expression_body (parse_term (pred_numeral k))
       (parse_expression_loop (pred_numeral k)) expr pos"
  "parse_expression_loop (numeral k) expr result pos =
     parse_expression_loop_body (parse_term (pred_numeral k))
       (parse_expression_loop (pred_numeral k)) expr result pos"
  "parse_term (numeral k) expr pos =
     parse_term_body (parse_factor (pred_numeral k)) (parse_term_loop (pred_numeral k)) expr pos"
  "parse_term_loop (numeral k) expr result pos =
     parse_term_loop_body (parse_factor (pred_numeral k))
       (parse_term_loop (pred_numeral k)) expr result pos"
  "parse_factor (numeral k) expr pos =
     parse_factor_body (parse_expression (pred_numeral k))
       (parse_factor (pred_numeral k)) expr pos"
  by (simp_all only: numeral_eq_Suc parse_Suc)

lemmas dispatch =
  binary_operation_def unary_operation_def resolve_def py_add_def py_sub_def py_mul_def
  py_eq_def py_lt0_def py_le0_def py_truediv_def float_pow_def complex_pow_def
  math_sqrt_def math_log_def

lemmas run =
  evaluate_expression_def evaluate_with_def parse_numeral parse_Suc parse_0
  parse_expression_body_def parse_expression_loop_body_def parse_term_body_def
  parse_term_loop_body_def parse_factor_body_def parse_number_def returns_def raises_def
  slice_def scan_digits.simps isdigit_def ascii_digit_def float_of_str_def digits_value_def
  is_integer_def int_of_float_def dispatch Let_def


lemma c_sqrt_16: "c_sqrt 16 = 4"
proof -
  have "sqrt ((4::real) ^ 2) = 4" by (simp only: real_sqrt_abs)
  then show ?thesis by (simp add: c_sqrt_def)
qed

lemma c_log_8: "c_log 8 = 3 * c_log 2"
proof -
  have "ln (8::real) = ln (2 ^ 3)" by simp
  also have "\<dots> = 3 * ln 2" by (simp only: ln_realpow)
  finally show ?thesis by (simp add: c_log_def)
qed

lemma c_log_2_pos: "0 < c_log 2"
  by (simp add: c_log_def)

section \<open>Precedence and associativity\<close>

lemma run_2_plus_3_times_4: "evaluate_expression ''2 + 3 * 4'' = Some (Inr (PyInt 14))"
  by (simp add: run cong: then_do_weak_cong)









section \<open>The arguments of \<^verbatim>\<open>log\<close>\<close>

lemma run_log_2_8:
  "evaluate_expression ''log(2, 8)'' = Some (Inr (PyFloat (c_log 2 / c_log 8)))"
  by (simp add: run cong: then_do_weak_cong)

lemma run_log_8_2:
  "evaluate_expression ''log(8, 2)'' = Some (Inr (PyFloat (c_log 8 / c_log 2)))"
  by (simp add: run cong: then_do_weak_cong)

lemma run_log_1_5:
  "evaluate_expression ''log(1, 5)'' = Some (Inr (PyFloat (c_log 1 / c_log 5)))"
  by (simp add: run cong: then_do_weak_cong)

lemma run_log_5_1: "evaluate_expression ''log(5, 1)'' = Some (Inl (ValueError Log_base_invalid))"
  by (simp add: run cong: then_do_weak_cong)

text \<open>
  Claim C1 says that \<^verbatim>\<open>log(b, v)\<close> in an expression is the logarithm of \<open>v\<close> in base \<open>b\<close>,
  so that \<^verbatim>\<open>log(2, 8)\<close> is 3. \<^verbatim>\<open>parse_factor\<close> reads \<^verbatim>\<open>base\<close> and then \<^verbatim>\<open>value\<close> and
  calls \<^verbatim>\<open>binary_operation(value, base, 'log')\<close>, whose first operand is the base
  (\<^verbatim>\<open>math.log(b, a)\<close>): the two are exchanged. The evaluator returns one third for
  \<^verbatim>\<open>log(2, 8)\<close>, the logarithm of 2 in base 8, and 3 for \<^verbatim>\<open>log(8, 2)\<close>.
\<close>

theorem log_2_8_is_one_third:
  "evaluate_expression ''log(2, 8)'' = Some (Inr (PyFloat (1 / 3))) \<and>
   evaluate_expression ''log(8, 2)'' = Some (Inr (PyFloat 3))"
  using c_log_2_pos by (simp add: run_log_2_8 run_log_8_2 c_log_8)

text \<open>
  Claim C4 says that \<^verbatim>\<open>log(b, v)\<close> fails with a domain error exactly when \<open>b \<le> 0\<close>,
  \<open>b = 1\<close> or \<open>v \<le> 0\<close>, so that \<^verbatim>\<open>log(1, 5)\<close> fails. With the operands exchanged the
  evaluator tests the second argument as the base: \<^verbatim>\<open>log(1, 5)\<close> returns 0.0, and
  \<^verbatim>\<open>log(5, 1)\<close>, whose base 5 and value 1 are both admissible, is the one that fails.
\<close>

theorem log_1_5_returns_zero:
  "evaluate_expression ''log(1, 5)'' = Some (Inr (PyFloat 0)) \<and>
   evaluate_expression ''log(5, 1)'' = Some (Inl (ValueError Log_base_invalid)) \<and>
   kind_of Log_base_invalid = DomainError"
  by (simp add: run_log_1_5 run_log_5_1 c_log_def)

section \<open>Whitespace and malformed input\<close>

lemma run_1_tab_0:
  "evaluate_expression [CHR ''1'', CHR 0x09, CHR ''0''] =
     Some (Inl (ValueError (Unexpected_character 1 (CHR 0x09))))"
  by (simp add: run cong: then_do_weak_cong)

lemma run_1_space_0: "evaluate_expression ''1 0'' = Some (Inr (PyInt 10))"
  by (simp add: run cong: then_do_weak_cong)

lemma run_10: "evaluate_expression ''10'' = Some (Inr (PyInt 10))"
  by (simp add: run cong: then_do_weak_cong)

lemma run_tab: "evaluate_expression [CHR 0x09] = Some (Inl (ValueError (Expected_number 0)))"
  by (simp add: run cong: then_do_weak_cong)

lemma run_empty: "evaluate_expression [] = Some (Inl (ValueError Empty_expression))"
  by (simp add: run cong: then_do_weak_cong)

lemma run_unclosed:
  "evaluate_expression ''(2 + 3'' = Some (Inl (ValueError Missing_closing_parenthesis))"
  by (simp add: run cong: then_do_weak_cong)

lemma run_trailing:
  "evaluate_expression ''2 + 3)'' = Some (Inl (ValueError (Unexpected_character 3 CHR '')'')))"
  by (simp add: run cong: then_do_weak_cong)

lemma run_sqrt_space_4:
  "evaluate_expression ''sqrt 4'' = Some (Inl (ValueError Sqrt_requires_parentheses))"
  by (simp add: run cong: then_do_weak_cong)

text \<open>What does hold: the space characters of the input are insignificant.\<close>

lemma spaces_are_insignificant:
  "evaluate_expression s = evaluate_expression (filter (\<lambda>c. c \<noteq> CHR '' '') s)"
  by (simp add: evaluate_expression_def evaluate_with_def)

lemma only_spaces_is_empty:
  "filter (\<lambda>c. c \<noteq> CHR '' '') s = [] \<Longrightarrow>
   evaluate_expression s = Some (Inl (ValueError Empty_expression))"
  by (simp add: evaluate_expression_def evaluate_with_def raises_def)

text \<open>
  Claim C3 says that every whitespace character is removed before parsing, not only the
  space. \<^verbatim>\<open>expression.replace(" ", "")\<close> removes the space alone, under the comment
  \<^verbatim>\<open># Remove all whitespace\<close>: a tab between \<^verbatim>\<open>1\<close> and \<^verbatim>\<open>0\<close> stays and is reported as
  an unexpected character, where the input without it evaluates to 10, as the input
  with a space in its place does.
\<close>

theorem tab_is_not_removed:
  "evaluate_expression [CHR ''1'', CHR 0x09, CHR ''0''] =
     Some (Inl (ValueError (Unexpected_character 1 (CHR 0x09)))) \<and>
   evaluate_expression ''10'' = Some (Inr (PyInt 10)) \<and>
   evaluate_expression ''1 0'' = Some (Inr (PyInt 10))"
  by (simp only: run_1_tab_0 run_10 run_1_space_0)

text \<open>
  Claim C8 names the error of four malformed inputs. The empty input, the unclosed
  \<^verbatim>\<open>(2 + 3\<close>, the trailing \<^verbatim>\<open>)\<close> of \<^verbatim>\<open>2 + 3)\<close> and \<^verbatim>\<open>sqrt 4\<close> fail as it says. An input
  that is empty once its whitespace is removed does not always: the input made of one
  tab is not empty for the evaluator, which parses it and reports that it expected a
  number at position 0, an error of the kind \<open>MalformedNumber\<close>.
\<close>

theorem tab_alone_is_not_an_empty_expression:
  "evaluate_expression [CHR 0x09] = Some (Inl (ValueError (Expected_number 0))) \<and>
   kind_of (Expected_number 0) = MalformedNumber \<and>
   evaluate_expression [] = Some (Inl (ValueError Empty_expression)) \<and>
   evaluate_expression ''   '' = Some (Inl (ValueError Empty_expression)) \<and>
   evaluate_expression ''(2 + 3'' = Some (Inl (ValueError Missing_closing_parenthesis)) \<and>
   kind_of Missing_closing_parenthesis = MissingParenthesis \<and>
   evaluate_expression ''2 + 3)'' = Some (Inl (ValueError (Unexpected_character 3 CHR '')''))) \<and>
   kind_of (Unexpected_character 3 CHR '')'') = UnexpectedTrailingInput \<and>
   evaluate_expression ''sqrt 4'' = Some (Inl (ValueError Sqrt_requires_parentheses)) \<and>
   kind_of Sqrt_requires_parentheses = MissingParenthesis"
  by (simp add: run_tab run_empty run_unclosed run_trailing run_sqrt_space_4 only_spaces_is_empty)

section \<open>Facts about slices\<close>

lemma slice_Suc:
  "pos < length expr \<Longrightarrow>
   slice expr pos (pos + Suc k) = expr ! pos # slice expr (Suc pos) (Suc pos + k)"
  by (simp add: slice_def Cons_nth_drop_Suc [symmetric])

lemma not_sqrt_at:
  assumes "pos < length expr" and "expr ! pos \<noteq> CHR ''s''"
  shows "slice expr pos (pos + 4) \<noteq> ''sqrt''"
  using slice_Suc [OF assms(1), of 3] assms(2) by (simp add: numeral_eq_Suc)

lemma not_log_at:
  assumes "pos < length expr" and "expr ! pos \<noteq> CHR ''l''"
  shows "slice expr pos (pos + 3) \<noteq> ''log''"
  using slice_Suc [OF assms(1), of 2] assms(2) by (simp add: numeral_eq_Suc)

section \<open>Unary minus\<close>

lemma run_5_minus_minus_3: "evaluate_expression ''5 - -3'' = Some (Inr (PyInt 8))"
  by (simp add: run cong: then_do_weak_cong)

lemma run_minus_5_times_minus_3: "evaluate_expression ''-5 * -3'' = Some (Inr (PyInt 15))"
  by (simp add: run cong: then_do_weak_cong)

lemma run_minus_group:
  "evaluate_expression ''-(2 + 3)'' = Some (Inl (ValueError (Invalid_number_format ''-'')))"
  by (simp add: run cong: then_do_weak_cong)

text \<open>
  A \<^verbatim>\<open>-\<close> where a factor starts, with neither a digit nor a point behind it, is taken
  for the sign of a literal that has no digits: \<^verbatim>\<open>float("-")\<close> fails and
  \<^verbatim>\<open>parse_factor\<close> raises \<^verbatim>\<open>Invalid number format: -\<close>, whatever follows.
\<close>

lemma dangling_minus:
  assumes "pos < length expr" and "expr ! pos = CHR ''-''"
    and "pos + 1 < length expr \<longrightarrow> \<not> isdigit (expr ! (pos + 1)) \<and> expr ! (pos + 1) \<noteq> CHR ''.''"
  shows "parse_factor (Suc n) expr pos = Some (Inl (ValueError (Invalid_number_format ''-'')))"
proof -
  have s4: "slice expr pos (pos + 4) \<noteq> ''sqrt''"
    using assms(1,2) by (intro not_sqrt_at) simp_all
  have s3: "slice expr pos (pos + 3) \<noteq> ''log''"
    using assms(1,2) by (intro not_log_at) simp_all
  have scan: "scan_digits expr (pos + 1) = pos + 1"
    using assms(3) by (subst scan_digits.simps) auto
  have s1: "slice expr pos (pos + 1) = ''-''"
    using slice_Suc [OF assms(1), of 0] assms(2) by (simp add: slice_def)
  have f: "float_of_str ''-'' = None"
    by (simp add: float_of_str_def)
  show ?thesis
    using assms(1,2) s4 s3 scan s1 f
    by (simp add: parse_Suc parse_factor_body_def parse_number_def raises_def)
qed

text \<open>
  Claim C6. Unary minus is part of the numeric literal and not an operator:
  \<^verbatim>\<open>5 - -3\<close> is 8 and \<^verbatim>\<open>-5 * -3\<close> is 15; \<^verbatim>\<open>-(2 + 3)\<close> does not negate the group but
  fails with an error of the kind \<open>MalformedNumber\<close>, and so does, at any position of
  any input and with any fuel left, a factor that starts with a \<^verbatim>\<open>-\<close> which no digit and
  no point follows.
\<close>

theorem unary_minus_belongs_to_the_literal:
  "evaluate_expression ''5 - -3'' = Some (Inr (PyInt 8)) \<and>
   evaluate_expression ''-5 * -3'' = Some (Inr (PyInt 15)) \<and>
   evaluate_expression ''-(2 + 3)'' = Some (Inl (ValueError (Invalid_number_format ''-''))) \<and>
   kind_of (Invalid_number_format ''-'') = MalformedNumber \<and>
   (\<forall>n expr pos.
      pos < length expr \<and> expr ! pos = CHR ''-'' \<and>
      (pos + 1 < length expr \<longrightarrow>
         \<not> isdigit (expr ! (pos + 1)) \<and> expr ! (pos + 1) \<noteq> CHR ''.'') \<longrightarrow>
      parse_factor (Suc n) expr pos = Some (Inl (ValueError (Invalid_number_format ''-''))))"
  using dangling_minus
  by (simp only: run_5_minus_minus_3 run_minus_5_times_minus_3 run_minus_group kind_of.simps)
    blast

theorem unary_minus_belongs_to_the_literal_witness:
  "0 < length ''-(2+3)'' \<and> ''-(2+3)'' ! 0 = CHR ''-'' \<and>
   \<not> isdigit (''-(2+3)'' ! (0 + 1)) \<and> ''-(2+3)'' ! (0 + 1) \<noteq> CHR ''.'' \<and>
   parse_factor (Suc 0) ''-(2+3)'' 0 = Some (Inl (ValueError (Invalid_number_format ''-'')))"
proof -
  have h: "0 < length ''-(2+3)'' \<and> ''-(2+3)'' ! 0 = CHR ''-'' \<and>
     \<not> isdigit (''-(2+3)'' ! (0 + 1)) \<and> ''-(2+3)'' ! (0 + 1) \<noteq> CHR ''.''"
    by (simp add: isdigit_def ascii_digit_def)
  from unary_minus_belongs_to_the_literal
  have "\<forall>n expr pos.
      pos < length expr \<and> expr ! pos = CHR ''-'' \<and>
      (pos + 1 < length expr \<longrightarrow>
         \<not> isdigit (expr ! (pos + 1)) \<and> expr ! (pos + 1) \<noteq> CHR ''.'') \<longrightarrow>
      parse_factor (Suc n) expr pos = Some (Inl (ValueError (Invalid_number_format ''-'')))"
    by (elim conjE)
  then have "parse_factor (Suc 0) ''-(2+3)'' 0 = Some (Inl (ValueError (Invalid_number_format ''-'')))"
    using h by blast
  with h show ?thesis by blast
qed

section \<open>Errors of the dispatcher\<close>









section \<open>Integer normalisation\<close>












section \<open>Termination\<close>

subsection \<open>More fuel changes no result\<close>

lemma below_refl: "below m m"
  by (simp add: below_def)

lemma below_then_do:
  "below m m' \<Longrightarrow> (\<And>x. below (f x) (f' x)) \<Longrightarrow> below (then_do m f) (then_do m' f')"
  by (auto simp: below_def then_do_def split: option.splits sum.splits)

lemma below_if:
  "(c \<Longrightarrow> below a a') \<Longrightarrow> (\<not> c \<Longrightarrow> below b b') \<Longrightarrow>
   below (if c then a else b) (if c then a' else b')"
  by simp

lemma below_case_prod:
  "(\<And>a b. below (f a b) (f' a b)) \<Longrightarrow> below (case_prod f x) (case_prod f' x)"
  by (cases x) simp

lemma below_case_option:
  "below a a' \<Longrightarrow> (\<And>y. below (f y) (f' y)) \<Longrightarrow>
   below (case_option a f x) (case_option a' f' x)"
  by (cases x) simp_all

lemma below_Let: "(\<And>y. below (f y) (f' y)) \<Longrightarrow> below (Let x f) (Let x f')"
  by simp

lemmas below_intros =
  below_then_do below_if below_case_prod below_case_option below_Let

lemma parse_expression_body_mono:
  assumes "\<And>e q. below (pt e q) (pt' e q)"
    and "\<And>e v q. below (pl e v q) (pl' e v q)"
  shows "below (parse_expression_body pt pl expr pos) (parse_expression_body pt' pl' expr pos)"
  unfolding parse_expression_body_def
  by (intro below_intros assms below_refl)

lemma parse_expression_loop_body_mono:
  assumes "\<And>e q. below (pt e q) (pt' e q)"
    and "\<And>e v q. below (pl e v q) (pl' e v q)"
  shows "below (parse_expression_loop_body pt pl expr v pos)
    (parse_expression_loop_body pt' pl' expr v pos)"
  unfolding parse_expression_loop_body_def
  by (intro below_intros assms below_refl)

lemma parse_term_body_mono:
  assumes "\<And>e q. below (pf e q) (pf' e q)"
    and "\<And>e v q. below (pl e v q) (pl' e v q)"
  shows "below (parse_term_body pf pl expr pos) (parse_term_body pf' pl' expr pos)"
  unfolding parse_term_body_def
  by (intro below_intros assms below_refl)

lemma parse_term_loop_body_mono:
  assumes "\<And>e q. below (pf e q) (pf' e q)"
    and "\<And>e v q. below (pl e v q) (pl' e v q)"
  shows "below (parse_term_loop_body pf pl expr v pos) (parse_term_loop_body pf' pl' expr v pos)"
  unfolding parse_term_loop_body_def
  by (intro below_intros assms below_refl)

lemma parse_number_mono:
  assumes "\<And>e q. below (pf e q) (pf' e q)"
  shows "below (parse_number pf expr pos) (parse_number pf' expr pos)"
  unfolding parse_number_def
  by (intro below_intros assms below_refl)

lemma parse_factor_body_mono:
  assumes "\<And>e q. below (pe e q) (pe' e q)"
    and "\<And>e q. below (pf e q) (pf' e q)"
  shows "below (parse_factor_body pe pf expr pos) (parse_factor_body pe' pf' expr pos)"
  unfolding parse_factor_body_def
  by (intro below_intros parse_number_mono assms below_refl)

lemma parse_mono_Suc_all:
  "(\<forall>e q. below (parse_expression n e q) (parse_expression (Suc n) e q)) \<and>
   (\<forall>e v q. below (parse_expression_loop n e v q) (parse_expression_loop (Suc n) e v q)) \<and>
   (\<forall>e q. below (parse_term n e q) (parse_term (Suc n) e q)) \<and>
   (\<forall>e v q. below (parse_term_loop n e v q) (parse_term_loop (Suc n) e v q)) \<and>
   (\<forall>e q. below (parse_factor n e q) (parse_factor (Suc n) e q))"
proof (induction n)
  case 0
  show ?case by (simp add: parse_0 below_def)
next
  case (Suc n)
  note ih = Suc [unfolded parse_Suc]
  show ?case
    unfolding parse_Suc
    by (intro conjI allI parse_expression_body_mono parse_expression_loop_body_mono
        parse_term_body_mono parse_term_loop_body_mono parse_factor_body_mono)
      (use ih in blast)+
qed

lemma below_trans: "below a b \<Longrightarrow> below b c \<Longrightarrow> below a c"
  by (auto simp: below_def)

lemma parse_mono:
  assumes "n \<le> m"
  shows "below (parse_expression n e q) (parse_expression m e q)"
    and "below (parse_factor n e q) (parse_factor m e q)"
    and "below (parse_term n e q) (parse_term m e q)"
    and "below (parse_term_loop n e v q) (parse_term_loop m e v q)"
  using assms
proof (induction m)
  case 0
  {
    case 1 then show ?case by (simp add: below_refl)
  next
    case 2 then show ?case by (simp add: below_refl)
  next
    case 3 then show ?case by (simp add: below_refl)
  next
    case 4 then show ?case by (simp add: below_refl)
  }
next
  case (Suc m)
  {
    case 1
    show ?case
    proof (cases "n = Suc m")
      case True then show ?thesis by (simp add: below_refl)
    next
      case False
      with 1 Suc(1) have "below (parse_expression n e q) (parse_expression m e q)" by simp
      then show ?thesis using parse_mono_Suc_all [of m] below_trans by blast
    qed
  next
    case 2
    show ?case
    proof (cases "n = Suc m")
      case True then show ?thesis by (simp add: below_refl)
    next
      case False
      with 2 Suc(2) have "below (parse_factor n e q) (parse_factor m e q)" by simp
      then show ?thesis using parse_mono_Suc_all [of m] below_trans by blast
    qed
  next
    case 3
    show ?case
    proof (cases "n = Suc m")
      case True then show ?thesis by (simp add: below_refl)
    next
      case False
      with 3 Suc(3) have "below (parse_term n e q) (parse_term m e q)" by simp
      then show ?thesis using parse_mono_Suc_all [of m] below_trans by blast
    qed
  next
    case 4
    show ?case
    proof (cases "n = Suc m")
      case True then show ?thesis by (simp add: below_refl)
    next
      case False
      with 4 Suc(4) have "below (parse_term_loop n e v q) (parse_term_loop m e v q)" by simp
      then show ?thesis using parse_mono_Suc_all [of m] below_trans by blast
    qed
  }
qed

subsection \<open>The position never moves backward\<close>

lemma scan_digits_advances: "pos \<le> scan_digits expr pos"
proof (induction expr pos rule: scan_digits.induct)
  case (1 expr pos)
  then show ?case by (subst scan_digits.simps) auto
qed

lemma advancesD: "advances pos m \<Longrightarrow> m = Some (Inr (v, q)) \<Longrightarrow> pos \<le> q"
  by (simp add: advances_def)

lemma advances_returns: "pos \<le> q \<Longrightarrow> advances pos (returns (v, q))"
  by (simp add: advances_def returns_def)

lemma advances_raises: "advances pos (raises err)"
  by (simp add: advances_def raises_def)

lemma advances_then_do_parsed:
  "advances p m \<Longrightarrow> (\<And>v q. p \<le> q \<Longrightarrow> advances pos (f v q)) \<Longrightarrow>
   advances pos (then_do m (case_prod f))"
  by (auto simp: advances_def then_do_def split: option.splits sum.splits)

lemma advances_then_do_value:
  "(\<And>x. advances pos (f x)) \<Longrightarrow> advances pos (then_do (Some r) f)"
  by (cases r) (simp_all add: advances_def)

lemma advances_if:
  "(c \<Longrightarrow> advances pos a) \<Longrightarrow> (\<not> c \<Longrightarrow> advances pos b) \<Longrightarrow>
   advances pos (if c then a else b)"
  by simp

lemma advances_case_option:
  "(x = None \<Longrightarrow> advances pos a) \<Longrightarrow> (\<And>y. x = Some y \<Longrightarrow> advances pos (f y)) \<Longrightarrow>
   advances pos (case_option a f x)"
  by (cases x) simp_all

lemma advances_weaken: "advances q m \<Longrightarrow> pos \<le> q \<Longrightarrow> advances pos m"
  by (auto simp: advances_def)

lemmas advances_intros =
  advances_then_do_value advances_if advances_case_option
  advances_raises advances_returns

lemma parse_expression_body_advances:
  assumes "\<And>e q. advances q (pt e q)" and "\<And>e v q. advances q (pl e v q)"
  shows "advances pos (parse_expression_body pt pl expr pos)"
  unfolding parse_expression_body_def
  by (intro advances_intros assms [THEN advances_then_do_parsed] assms [THEN advances_weaken])
    simp_all

lemma parse_expression_loop_body_advances:
  assumes "\<And>e q. advances q (pt e q)" and "\<And>e v q. advances q (pl e v q)"
  shows "advances pos (parse_expression_loop_body pt pl expr v pos)"
  unfolding parse_expression_loop_body_def
  by (intro advances_intros assms [THEN advances_then_do_parsed] assms [THEN advances_weaken])
    simp_all

lemma parse_term_body_advances:
  assumes "\<And>e q. advances q (pf e q)" and "\<And>e v q. advances q (pl e v q)"
  shows "advances pos (parse_term_body pf pl expr pos)"
  unfolding parse_term_body_def
  by (intro advances_intros assms [THEN advances_then_do_parsed] assms [THEN advances_weaken])
    simp_all

lemma parse_term_loop_body_advances:
  assumes "\<And>e q. advances q (pf e q)" and "\<And>e v q. advances q (pl e v q)"
  shows "advances pos (parse_term_loop_body pf pl expr v pos)"
  unfolding parse_term_loop_body_def
  by (intro advances_intros assms [THEN advances_then_do_parsed] assms [THEN advances_weaken])
    simp_all

lemma scan_from_advances:
  "pos \<le> scan_digits expr (if pos < length expr \<and> expr ! pos = CHR ''-'' then pos + 1 else pos)"
  using scan_digits_advances [of "pos + 1" expr] scan_digits_advances [of pos expr]
  by auto

lemma parse_number_advances:
  assumes "\<And>e q. advances q (pf e q)"
  shows "advances pos (parse_number pf expr pos)"
  unfolding parse_number_def Let_def
  using scan_digits_advances [of "Suc pos" expr] scan_digits_advances [of pos expr]
  by (intro advances_intros assms [THEN advances_then_do_parsed] assms [THEN advances_weaken])
    (auto split: if_splits)

lemma parse_factor_body_advances:
  assumes "\<And>e q. advances q (pe e q)" and "\<And>e q. advances q (pf e q)"
  shows "advances pos (parse_factor_body pe pf expr pos)"
  unfolding parse_factor_body_def
  by (intro advances_intros assms [THEN advances_then_do_parsed] assms [THEN advances_weaken]
      parse_number_advances) simp_all

lemma parse_advances_all:
  "(\<forall>e q. advances q (parse_expression n e q)) \<and>
   (\<forall>e v q. advances q (parse_expression_loop n e v q)) \<and>
   (\<forall>e q. advances q (parse_term n e q)) \<and>
   (\<forall>e v q. advances q (parse_term_loop n e v q)) \<and>
   (\<forall>e q. advances q (parse_factor n e q))"
proof (induction n)
  case 0
  show ?case by (simp add: parse_0 advances_def)
next
  case (Suc n)
  show ?case
    unfolding parse_Suc
    by (intro conjI allI parse_expression_body_advances parse_expression_loop_body_advances
        parse_term_body_advances parse_term_loop_body_advances parse_factor_body_advances)
      (use Suc in blast)+
qed

subsection \<open>Five units of fuel for each character are enough\<close>

text \<open>
  A call of \<^verbatim>\<open>parse_expression\<close> with \<open>r\<close> characters left needs at most \<open>5 * r + 5\<close>
  units, one of \<^verbatim>\<open>parse_factor\<close> at most \<open>5 * r + 1\<close>: between two calls of the same
  function at the same position a character is consumed.
\<close>

lemma defined_returns: "defined (returns x)"
  by (simp add: defined_def returns_def)

lemma defined_raises: "defined (raises err)"
  by (simp add: defined_def raises_def)

lemma defined_then_do_parsed:
  "defined m \<Longrightarrow> (\<And>v q. m = Some (Inr (v, q)) \<Longrightarrow> defined (f v q)) \<Longrightarrow>
   defined (then_do m (case_prod f))"
  by (auto simp: defined_def then_do_def split: option.splits sum.splits)

lemma defined_then_do_value:
  "(\<And>x. defined (f x)) \<Longrightarrow> defined (then_do (Some r) f)"
  by (cases r) (simp_all add: defined_def)

lemma defined_if:
  "(c \<Longrightarrow> defined a) \<Longrightarrow> (\<not> c \<Longrightarrow> defined b) \<Longrightarrow> defined (if c then a else b)"
  by simp

lemma defined_case_option:
  "(x = None \<Longrightarrow> defined a) \<Longrightarrow> (\<And>y. x = Some y \<Longrightarrow> defined (f y)) \<Longrightarrow>
   defined (case_option a f x)"
  by (cases x) simp_all

lemmas defined_intros =
  defined_then_do_parsed defined_then_do_value defined_if defined_case_option
  defined_raises defined_returns

lemma parse_expression_body_defined:
  assumes adv: "\<And>e q. advances q (pt e q)"
    and pt: "defined (pt expr pos)"
    and pl: "\<And>v q. pos \<le> q \<Longrightarrow> defined (pl expr v q)"
  shows "defined (parse_expression_body pt pl expr pos)"
  unfolding parse_expression_body_def
  by (intro defined_intros pt pl) (auto dest!: adv [THEN advancesD])

lemma parse_expression_loop_body_defined:
  assumes adv: "\<And>e q. advances q (pt e q)"
    and pt: "pos < length expr \<Longrightarrow> defined (pt expr (pos + 1))"
    and pl: "\<And>v q. pos < q \<Longrightarrow> pos < length expr \<Longrightarrow> defined (pl expr v q)"
  shows "defined (parse_expression_loop_body pt pl expr v pos)"
  unfolding parse_expression_loop_body_def
  by (intro defined_intros pt pl) (auto dest!: adv [THEN advancesD])

lemma parse_term_body_defined:
  assumes adv: "\<And>e q. advances q (pf e q)"
    and pf: "defined (pf expr pos)"
    and pl: "\<And>v q. pos \<le> q \<Longrightarrow> defined (pl expr v q)"
  shows "defined (parse_term_body pf pl expr pos)"
  unfolding parse_term_body_def
  by (intro defined_intros pf pl) (auto dest!: adv [THEN advancesD])

lemma parse_term_loop_body_defined:
  assumes adv: "\<And>e q. advances q (pf e q)"
    and pf: "pos < length expr \<Longrightarrow> defined (pf expr (pos + 1))"
    and pl: "\<And>v q. pos < q \<Longrightarrow> pos < length expr \<Longrightarrow> defined (pl expr v q)"
  shows "defined (parse_term_loop_body pf pl expr v pos)"
  unfolding parse_term_loop_body_def
  by (intro defined_intros pf pl) (auto dest!: adv [THEN advancesD])

lemma parse_number_defined:
  assumes pf: "\<And>q. pos < q \<Longrightarrow> pos < length expr \<Longrightarrow> defined (pf expr q)"
  shows "defined (parse_number pf expr pos)"
  unfolding parse_number_def Let_def
  using scan_digits_advances [of "Suc pos" expr] scan_digits_advances [of pos expr]
  by (intro defined_intros pf) (auto split: if_splits)

lemma parse_factor_body_defined:
  assumes adv: "\<And>e q. advances q (pe e q)"
    and pe: "\<And>q. pos < q \<Longrightarrow> pos < length expr \<Longrightarrow> defined (pe expr q)"
    and pf: "\<And>q. pos < q \<Longrightarrow> pos < length expr \<Longrightarrow> defined (pf expr q)"
  shows "defined (parse_factor_body pe pf expr pos)"
  unfolding parse_factor_body_def
  by (intro defined_intros pe pf parse_number_defined) (auto dest!: adv [THEN advancesD])

lemma parse_defined_all:
  "(\<forall>e q. 5 * (length e - q) + 5 \<le> n \<longrightarrow> defined (parse_expression n e q)) \<and>
   (\<forall>e v q. 5 * (length e - q) + 4 \<le> n \<longrightarrow> defined (parse_expression_loop n e v q)) \<and>
   (\<forall>e q. 5 * (length e - q) + 3 \<le> n \<longrightarrow> defined (parse_term n e q)) \<and>
   (\<forall>e v q. 5 * (length e - q) + 2 \<le> n \<longrightarrow> defined (parse_term_loop n e v q)) \<and>
   (\<forall>e q. 5 * (length e - q) + 1 \<le> n \<longrightarrow> defined (parse_factor n e q))"
proof (induction n)
  case 0
  show ?case by simp
next
  case (Suc n)
  note adv = parse_advances_all [of n]
  from adv have adv_e: "\<And>e q. advances q (parse_expression n e q)"
    and adv_t: "\<And>e q. advances q (parse_term n e q)"
    and adv_f: "\<And>e q. advances q (parse_factor n e q)"
    by blast+
  from Suc have ih_e: "\<And>e q. 5 * (length e - q) + 5 \<le> n \<Longrightarrow> defined (parse_expression n e q)"
    and ih_el: "\<And>e v q. 5 * (length e - q) + 4 \<le> n \<Longrightarrow> defined (parse_expression_loop n e v q)"
    and ih_t: "\<And>e q. 5 * (length e - q) + 3 \<le> n \<Longrightarrow> defined (parse_term n e q)"
    and ih_tl: "\<And>e v q. 5 * (length e - q) + 2 \<le> n \<Longrightarrow> defined (parse_term_loop n e v q)"
    and ih_f: "\<And>e q. 5 * (length e - q) + 1 \<le> n \<Longrightarrow> defined (parse_factor n e q)"
    by blast+
  have e: "defined (parse_expression (Suc n) e q)" if "5 * (length e - q) + 5 \<le> Suc n" for e q
    unfolding parse_Suc using that
    by (intro parse_expression_body_defined adv_t ih_t ih_el) simp_all
  have el: "defined (parse_expression_loop (Suc n) e v q)"
    if "5 * (length e - q) + 4 \<le> Suc n" for e v q
    unfolding parse_Suc using that
    by (intro parse_expression_loop_body_defined adv_t ih_t ih_el) simp_all
  have t: "defined (parse_term (Suc n) e q)" if "5 * (length e - q) + 3 \<le> Suc n" for e q
    unfolding parse_Suc using that
    by (intro parse_term_body_defined adv_f ih_f ih_tl) simp_all
  have tl: "defined (parse_term_loop (Suc n) e v q)"
    if "5 * (length e - q) + 2 \<le> Suc n" for e v q
    unfolding parse_Suc using that
    by (intro parse_term_loop_body_defined adv_f ih_f ih_tl) simp_all
  have f: "defined (parse_factor (Suc n) e q)" if "5 * (length e - q) + 1 \<le> Suc n" for e q
    unfolding parse_Suc using that
    by (intro parse_factor_body_defined adv_e ih_e ih_f) simp_all
  from e el t tl f show ?case by blast
qed

lemma evaluate_with_defined:
  assumes "5 * length (filter (\<lambda>c. c \<noteq> CHR '' '') s) + 5 \<le> fuel"
  shows "\<exists>r. evaluate_with fuel s = Some r"
proof -
  let ?e = "filter (\<lambda>c. c \<noteq> CHR '' '') s"
  from assms have "5 * (length ?e - 0) + 5 \<le> fuel" by simp
  with parse_defined_all [of fuel] have "defined (parse_expression fuel ?e 0)" by blast
  then obtain r where "parse_expression fuel ?e 0 = Some r"
    by (auto simp: defined_def)
  then show ?thesis
    by (auto simp: evaluate_with_def returns_def raises_def Let_def
        split: sum.splits exn.splits prod.splits)
qed

lemma evaluate_with_more_fuel:
  assumes "5 * length (filter (\<lambda>c. c \<noteq> CHR '' '') s) + 5 \<le> fuel"
  shows "evaluate_with fuel s = evaluate_expression s"
proof -
  let ?e = "filter (\<lambda>c. c \<noteq> CHR '' '') s"
  let ?n = "5 * length ?e + 5"
  have "5 * (length ?e - 0) + 5 \<le> ?n" by simp
  with parse_defined_all [of ?n] have "defined (parse_expression ?n ?e 0)" by blast
  moreover have "below (parse_expression ?n ?e 0) (parse_expression fuel ?e 0)"
    using assms by (rule parse_mono)
  ultimately have "parse_expression fuel ?e 0 = parse_expression ?n ?e 0"
    by (auto simp: defined_def below_def)
  then show ?thesis
    by (simp add: evaluate_expression_def evaluate_with_def Let_def)
qed


text \<open>
  Claim C10. \<^verbatim>\<open>evaluate_expression\<close> terminates on every input: the evaluation returns
  a value or raises, with the fuel that \<open>evaluate_expression\<close> provides, which is linear
  in the length of the input, and any larger amount of fuel gives the same outcome.
  The position that the parsing functions return is never before the one they start
  from.
\<close>

theorem evaluate_expression_terminates:
  "(\<exists>r. evaluate_expression s = Some r) \<and>
   (\<forall>fuel. 5 * length (filter (\<lambda>c. c \<noteq> CHR '' '') s) + 5 \<le> fuel \<longrightarrow>
      evaluate_with fuel s = evaluate_expression s) \<and>
   (\<forall>n expr pos v q. parse_expression n expr pos = Some (Inr (v, q)) \<longrightarrow> pos \<le> q) \<and>
   (\<forall>n expr pos v q. parse_term n expr pos = Some (Inr (v, q)) \<longrightarrow> pos \<le> q) \<and>
   (\<forall>n expr pos v q. parse_factor n expr pos = Some (Inr (v, q)) \<longrightarrow> pos \<le> q)"
proof (intro conjI allI impI)
  show "\<exists>r. evaluate_expression s = Some r"
    unfolding evaluate_expression_def by (rule evaluate_with_defined) simp
  show "evaluate_with fuel s = evaluate_expression s"
    if "5 * length (filter (\<lambda>c. c \<noteq> CHR '' '') s) + 5 \<le> fuel" for fuel
    using that by (rule evaluate_with_more_fuel)
  show "pos \<le> q" if "parse_expression n expr pos = Some (Inr (v, q))" for n expr pos v q
    using parse_advances_all [of n] that by (auto simp: advances_def)
  show "pos \<le> q" if "parse_term n expr pos = Some (Inr (v, q))" for n expr pos v q
    using parse_advances_all [of n] that by (auto simp: advances_def)
  show "pos \<le> q" if "parse_factor n expr pos = Some (Inr (v, q))" for n expr pos v q
    using parse_advances_all [of n] that by (auto simp: advances_def)
qed

theorem evaluate_expression_terminates_witness:
  "5 * length (filter (\<lambda>c. c \<noteq> CHR '' '') ''2 + 3 * 4'') + 5 \<le> (100::nat) \<and>
   evaluate_with 100 ''2 + 3 * 4'' = Some (Inr (PyInt 14)) \<and>
   parse_factor 1 ''42'' 0 = Some (Inr (PyInt 42, 2)) \<and> (0::nat) \<le> 2"
proof -
  note t = evaluate_expression_terminates [of "''2 + 3 * 4''"]
  have h: "5 * length (filter (\<lambda>c. c \<noteq> CHR '' '') ''2 + 3 * 4'') + 5 \<le> (100::nat)"
    by simp
  with t have "evaluate_with 100 ''2 + 3 * 4'' = evaluate_expression ''2 + 3 * 4''"
    by blast
  then have e: "evaluate_with 100 ''2 + 3 * 4'' = Some (Inr (PyInt 14))"
    by (simp only: run_2_plus_3_times_4)
  have f: "parse_factor 1 ''42'' 0 = Some (Inr (PyInt 42, 2))"
    by (simp add: run cong: then_do_weak_cong)
  with t have "(0::nat) \<le> 2" by blast
  with h e f show ?thesis by blast
qed

end
